theory Spec2Isabelle
  imports
    Complex_Main
    "HOL-Library.Product_Lexorder"
    "HOL-Library.List_Lexorder"
    "HOL-Library.Char_ord"
begin

section \<open>Data model of \<open>data_preparation.py\<close>\<close>

text \<open>
  The script works on pandas data frames. A frame is modelled as the list of its rows in
  index order, each row a record of the columns the script reads or writes, together with
  the dtype of its wind speed columns. A float cell is \<open>real option\<close>, with \<open>None\<close> for NaN
  (a missing value); floating-point rounding is not modelled, arithmetic is exact. The
  columns \<open>wind_speed_ms\<close> and \<open>date\<close> are created by the script; in a frame that does not
  have them yet they read \<open>None\<close>. Writing the three result files is output and is not
  modelled.
\<close>

type_synonym timestamp = "int \<times> int \<times> int"
  \<comment> \<open>(year, month, day); the lexicographic order of the triple is the chronological order\<close>

datatype error = ValueError | TypeError

datatype dtype = Float64 | Object

record row =
  origin :: string
  year :: int
  month :: int
  day :: int
  wind_speed :: "real option"
  wind_speed_ms :: "real option"
  date :: "timestamp option"

record dataframe =
  frame_rows :: "row list"
  speed_dtype :: dtype
  \<comment> \<open>the dtype of the column \<open>wind_speed\<close> and of the columns computed from it\<close>

record daily_record =
  Date :: timestamp
  Airport :: string
  Wind_Speed_ms :: "real option"

record monthly_pivot =
  columns :: "string list"
  rows :: "(int \<times> real option list) list"
  \<comment> \<open>one row per month: the \<open>Month\<close> value and one cell per entry of \<open>columns\<close>\<close>

subsection \<open>Constants\<close>

definition MPH_TO_MS :: real where
  "MPH_TO_MS = 0.44704"

definition AIRPORTS :: "string list" where
  "AIRPORTS = [''EWR'', ''JFK'', ''LGA'']"

section \<open>The pandas operations the script calls\<close>

subsection \<open>\<open>pd.read_csv\<close>\<close>

text \<open>
  The input of the model is the list of the data lines of the file, each parsed to a row.
  pandas infers the dtype of a column from its values: the wind speed column of a file
  with data lines is \<open>float64\<close>; a file that has the header line only gives columns of
  dtype \<open>object\<close>. Filtering rows and multiplying a column by a number keep the dtype.
\<close>

definition read_csv :: "row list \<Rightarrow> dataframe" where
  "read_csv file_rows =
     \<lparr>frame_rows = file_rows,
      speed_dtype = (if file_rows = [] then Object else Float64)\<rparr>"

subsection \<open>\<open>pd.to_datetime\<close> on the columns year, month, day\<close>

text \<open>
  What \<open>pd.to_datetime\<close> does with a triple (year, month, day) depends on the version of
  pandas, and the repository fixes none. The versions agree on two kinds of triples, and
  the model fixes these. A date of the Gregorian calendar with a year from 1678 to 2261
  (the years that lie inside the nanosecond timestamp range) is read as that date. A
  triple with a four-digit year, a month from 1 to 12 and a day from 1 to 31 that is not
  a date of the calendar raises \<open>ValueError\<close>, since the script leaves \<open>errors\<close> at its
  default \<open>'raise'\<close>. Every other triple is left to the parameter \<open>other\<close>, which stands
  for the pandas version in use: \<open>None\<close> when it raises, \<open>Some t\<close> when it reads the triple
  as the date \<open>t\<close>. (Versions that add up \<open>year * 10000 + month * 100 + day\<close> and parse the
  sum with \<open>%Y%m%d\<close> read (2013, 0, 101) as 1 January 2013; others raise there.) One
  triple that raises makes the whole conversion raise.
\<close>

type_synonym date_reader = "int \<Rightarrow> int \<Rightarrow> int \<Rightarrow> timestamp option"

definition is_leap :: "int \<Rightarrow> bool" where
  "is_leap y = (y mod 4 = 0 \<and> (y mod 100 \<noteq> 0 \<or> y mod 400 = 0))"

definition days_in_month :: "int \<Rightarrow> int \<Rightarrow> int" where
  "days_in_month y m =
     (if m = 2 then (if is_leap y then 29 else 28)
      else if m = 4 \<or> m = 6 \<or> m = 9 \<or> m = 11 then 30
      else 31)"

definition valid_date :: "int \<Rightarrow> int \<Rightarrow> int \<Rightarrow> bool" where
  "valid_date y m d = (1 \<le> m \<and> m \<le> 12 \<and> 1 \<le> d \<and> d \<le> days_in_month y m)"

definition assemble :: "date_reader \<Rightarrow> row \<Rightarrow> error + timestamp" where
  "assemble other r =
     (let y = year r; m = month r; d = day r
      in if 1000 \<le> y \<and> y \<le> 9999 \<and> 1 \<le> m \<and> m \<le> 12 \<and> 1 \<le> d \<and> d \<le> 31
            \<and> \<not> valid_date y m d
         then Inl ValueError
         else if 1678 \<le> y \<and> y \<le> 2261 \<and> valid_date y m d
         then Inr (y, m, d)
         else (case other y m d of None \<Rightarrow> Inl ValueError | Some t \<Rightarrow> Inr t))"

fun to_datetime :: "date_reader \<Rightarrow> row list \<Rightarrow> error + timestamp list" where
  "to_datetime other [] = Inr []"
| "to_datetime other (r # rs) =
     (case assemble other r of
        Inl e \<Rightarrow> Inl e
      | Inr t \<Rightarrow> (case to_datetime other rs of Inl e \<Rightarrow> Inl e | Inr ts \<Rightarrow> Inr (t # ts)))"

definition assign_date :: "row list \<Rightarrow> timestamp list \<Rightarrow> row list" where
  \<comment> \<open>\<open>df['date'] = ts\<close>: the column is created or overwritten\<close>
  "assign_date rs ts = map (\<lambda>(r, t). r\<lparr>date := Some t\<rparr>) (zip rs ts)"

subsection \<open>\<open>groupby(keys)[col].mean().reset_index()\<close>\<close>

text \<open>
  One output row per distinct key, in ascending key order (\<open>sort=True\<close> is the default).
  Rows whose key is missing are left out (\<open>dropna=True\<close>); the mean skips NaN and is NaN
  when the group has no value.
\<close>

definition mean_skipna :: "real option list \<Rightarrow> real option" where
  "mean_skipna vs =
     (let xs = List.map_filter id vs
      in if xs = [] then None else Some (sum_list xs / real (length xs)))"

definition groupby_mean ::
  "('r \<Rightarrow> 'k::linorder option) \<Rightarrow> ('r \<Rightarrow> real option) \<Rightarrow> 'r list \<Rightarrow> ('k \<times> real option) list" where
  "groupby_mean key col df =
     map (\<lambda>k. (k, mean_skipna (map col (filter (\<lambda>r. key r = Some k) df))))
         (sort (remdups (List.map_filter key df)))"

subsection \<open>\<open>pivot(index, columns, values)\<close> followed by \<open>reset_index()\<close>\<close>

text \<open>
  The index is the sorted distinct first key, the columns are the sorted distinct second
  key, a cell without an entry is NaN. pandas raises \<open>ValueError\<close> when an (index, column)
  pair occurs twice.
\<close>

definition pivot :: "((int \<times> string) \<times> real option) list \<Rightarrow> error + monthly_pivot" where
  "pivot long =
     (if \<not> distinct (map fst long) then Inl ValueError
      else
        let idx = sort (remdups (map (\<lambda>((m, a), v). m) long));
            cols = sort (remdups (map (\<lambda>((m, a), v). a) long))
        in Inr \<lparr>columns = cols,
                rows = map (\<lambda>m. (m, map (\<lambda>a. case map_of long (m, a) of
                                              Some v \<Rightarrow> v | None \<Rightarrow> None) cols)) idx\<rparr>)"

subsection \<open>\<open>nlargest(n, col)\<close>\<close>

text \<open>
  pandas refuses the method on a column of dtype \<open>object\<close> with \<open>TypeError\<close>. On a numeric
  column the result is the first \<open>n\<close> rows in descending order of the column,
  \<open>keep='first'\<close>: among equal values the rows that come first in the frame are preferred
  and keep their order; NaN rows come last. A non-positive \<open>n\<close> gives no rows.
\<close>

definition desc_key :: "real option \<Rightarrow> nat \<times> real" where
  "desc_key v = (case v of None \<Rightarrow> (1, 0) | Some x \<Rightarrow> (0, - x))"

definition nlargest :: "int \<Rightarrow> dtype \<Rightarrow> ('r \<Rightarrow> real option) \<Rightarrow> 'r list \<Rightarrow> error + 'r list" where
  "nlargest n col_dtype col df =
     (if col_dtype = Object then Inl TypeError
      else Inr (take (nat n) (sort_key (\<lambda>r. desc_key (col r)) df)))"

section \<open>The functions of the script\<close>

definition load_and_clean_data :: "row list \<Rightarrow> dataframe" where
  "load_and_clean_data file_rows =
     (let df = read_csv file_rows;
          df = df\<lparr>frame_rows := filter (\<lambda>r. origin r \<in> set AIRPORTS) (frame_rows df)\<rparr>;
          df = df\<lparr>frame_rows := filter (\<lambda>r. wind_speed r \<noteq> None) (frame_rows df)\<rparr>;
          df = df\<lparr>frame_rows :=
                  map (\<lambda>r. r\<lparr>wind_speed_ms := map_option (\<lambda>w. w * MPH_TO_MS) (wind_speed r)\<rparr>)
                    (frame_rows df)\<rparr>
      in df)"

text \<open>
  The aggregation functions receive the frame by reference. Each returns its result
  together with the caller's frame as it is after the call.
\<close>

definition calculate_daily_means ::
  "date_reader \<Rightarrow> dataframe \<Rightarrow> error + (daily_record list \<times> dataframe)" where
  "calculate_daily_means other df =
     (case to_datetime other (frame_rows df) of
        Inl e \<Rightarrow> Inl e
      | Inr ts \<Rightarrow>
          let df = df\<lparr>frame_rows := assign_date (frame_rows df) ts\<rparr>;
              daily = groupby_mean (\<lambda>r. map_option (\<lambda>t. (t, origin r)) (date r)) wind_speed_ms
                        (frame_rows df)
          in Inr (map (\<lambda>((t, a), v). \<lparr>Date = t, Airport = a, Wind_Speed_ms = v\<rparr>) daily, df))"

definition calculate_monthly_means :: "dataframe \<Rightarrow> error + (monthly_pivot \<times> dataframe)" where
  "calculate_monthly_means df =
     (let monthly = groupby_mean (\<lambda>r. Some (month r, origin r)) wind_speed_ms (frame_rows df)
      in case pivot monthly of
           Inl e \<Rightarrow> Inl e
         | Inr monthly_pivot \<Rightarrow> Inr (monthly_pivot, df))"

definition airport_daily ::
  "date_reader \<Rightarrow> dataframe \<Rightarrow> string \<Rightarrow> error + (timestamp \<times> real option) list" where
  \<comment> \<open>the frame \<open>daily\<close> inside \<open>find_top_windiest_days\<close>; \<open>airport_df\<close> is a copy\<close>
  "airport_daily other df airport =
     (let airport_df = filter (\<lambda>r. origin r = airport) (frame_rows df)
      in case to_datetime other airport_df of
           Inl e \<Rightarrow> Inl e
         | Inr ts \<Rightarrow>
             let airport_df = assign_date airport_df ts
             in Inr (groupby_mean date wind_speed_ms airport_df))"

definition find_top_windiest_days ::
  "date_reader \<Rightarrow> dataframe \<Rightarrow> string \<Rightarrow> int \<Rightarrow> error + (daily_record list \<times> dataframe)" where
  "find_top_windiest_days other df airport top_n =
     (case airport_daily other df airport of
        Inl e \<Rightarrow> Inl e
      | Inr daily \<Rightarrow>
          (case nlargest top_n (speed_dtype df) snd daily of
             Inl e \<Rightarrow> Inl e
           | Inr top_days \<Rightarrow>
               Inr (map (\<lambda>(t, v). \<lparr>Date = t, Airport = airport, Wind_Speed_ms = v\<rparr>) top_days,
                    df)))"

definition prepare_data_for_tableau ::
  "date_reader \<Rightarrow> row list \<Rightarrow>
     error + (daily_record list \<times> monthly_pivot \<times> daily_record list)" where
  "prepare_data_for_tableau other input_file =
     (let df = load_and_clean_data input_file
      in case calculate_daily_means other df of
           Inl e \<Rightarrow> Inl e
         | Inr (daily, df) \<Rightarrow>
             (case calculate_monthly_means df of
                Inl e \<Rightarrow> Inl e
              | Inr (monthly, df) \<Rightarrow>
                  (case find_top_windiest_days other df ''LGA'' 20 of
                     Inl e \<Rightarrow> Inl e
                   | Inr (top_days, df) \<Rightarrow> Inr (daily, monthly, top_days))))"

section \<open>Definitions used to state the properties\<close>

text \<open>
  The cleaning steps with the two row filters exchanged: the rows with a missing wind
  speed are dropped first, the airports are filtered second.
\<close>

definition clean_dropna_first :: "row list \<Rightarrow> dataframe" where
  "clean_dropna_first file_rows =
     (let df = read_csv file_rows;
          df = df\<lparr>frame_rows := filter (\<lambda>r. wind_speed r \<noteq> None) (frame_rows df)\<rparr>;
          df = df\<lparr>frame_rows := filter (\<lambda>r. origin r \<in> set AIRPORTS) (frame_rows df)\<rparr>;
          df = df\<lparr>frame_rows :=
                  map (\<lambda>r. r\<lparr>wind_speed_ms := map_option (\<lambda>w. w * MPH_TO_MS) (wind_speed r)\<rparr>)
                    (frame_rows df)\<rparr>
      in df)"

text \<open>
  A row whose year, month and day form a date of the calendar inside the timestamp range
  of every pandas version.
\<close>

definition supported_date :: "row \<Rightarrow> bool" where
  "supported_date r =
     (1678 \<le> year r \<and> year r \<le> 2261 \<and> valid_date (year r) (month r) (day r))"

text \<open>The timestamp \<open>pd.to_datetime\<close> gives a row, when it gives one.\<close>

definition stamp :: "date_reader \<Rightarrow> row \<Rightarrow> timestamp option" where
  "stamp other r = (case assemble other r of Inl e \<Rightarrow> None | Inr t \<Rightarrow> Some t)"

text \<open>
  Reading the pivoted table: the cell in the row of month \<open>m\<close> under the column of
  airport \<open>a\<close>. The result is \<open>None\<close> when the cell is NaN and also when the table has no
  such row or no such column.
\<close>

definition cell_at :: "monthly_pivot \<Rightarrow> int \<Rightarrow> string \<Rightarrow> real option" where
  "cell_at pv m a =
     (case map_of (rows pv) m of
        None \<Rightarrow> None
      | Some cells \<Rightarrow> (case map_of (zip (columns pv) cells) a of None \<Rightarrow> None | Some v \<Rightarrow> v))"

section \<open>Date assembly\<close>

lemma assemble_error: "assemble other r = Inl e \<Longrightarrow> e = ValueError"
  by (auto simp: assemble_def Let_def split: if_splits option.splits)

lemma assemble_supported:
  "supported_date r \<Longrightarrow> assemble other r = Inr (year r, month r, day r)"
  by (auto simp: assemble_def supported_date_def Let_def)


lemma stamp_Some_iff: "stamp other r = Some t \<longleftrightarrow> assemble other r = Inr t"
  by (simp add: stamp_def split: sum.splits)

lemma stamp_supported:
  "supported_date r \<Longrightarrow> stamp other r = Some (year r, month r, day r)"
  by (simp add: stamp_Some_iff assemble_supported)

lemma to_datetime_total:
  "\<forall>r\<in>set rs. assemble other r \<noteq> Inl ValueError \<Longrightarrow> \<exists>ts. to_datetime other rs = Inr ts"
proof (induction rs)
  case Nil
  then show ?case by simp
next
  case (Cons r rs)
  then obtain ts where "to_datetime other rs = Inr ts" by auto
  moreover from Cons.prems obtain t where "assemble other r = Inr t"
    by (cases "assemble other r") (auto dest: assemble_error)
  ultimately show ?case by simp
qed


lemma assign_date_stamp:
  "to_datetime other rs = Inr ts \<Longrightarrow>
     assign_date rs ts = map (\<lambda>r. r\<lparr>date := stamp other r\<rparr>) rs"
proof (induction rs arbitrary: ts)
  case Nil
  then show ?case by (simp add: assign_date_def)
next
  case (Cons r rs)
  then show ?case
    by (auto simp: assign_date_def stamp_def split: sum.splits)
qed

section \<open>Loading and cleaning\<close>

lemma load_and_clean_data_rows:
  "frame_rows (load_and_clean_data raw) =
     map (\<lambda>r. r\<lparr>wind_speed_ms := map_option (\<lambda>w. w * MPH_TO_MS) (wind_speed r)\<rparr>)
       (filter (\<lambda>r. origin r \<in> set AIRPORTS \<and> wind_speed r \<noteq> None) raw)"
  by (simp add: load_and_clean_data_def read_csv_def conj_commute)

lemma load_and_clean_data_dtype:
  "speed_dtype (load_and_clean_data raw) = (if raw = [] then Object else Float64)"
  by (simp add: load_and_clean_data_def read_csv_def)

lemma cleaned_speed:
  "r \<in> set (frame_rows (load_and_clean_data raw)) \<Longrightarrow> \<exists>w. wind_speed_ms r = Some w"
  by (auto simp: load_and_clean_data_rows)

text \<open>
  Claim C1. The cleaned table consists of exactly the rows of the raw table whose origin
  is EWR, JFK or LGA and whose wind speed is present, in their order, each with the column
  \<open>wind_speed_ms\<close> set to the wind speed times 0.44704; so every cleaned row has a known
  airport and a wind speed in metres per second that is not missing.
\<close>

theorem load_and_clean_data_spec:
  "frame_rows (load_and_clean_data raw) =
     map (\<lambda>r. r\<lparr>wind_speed_ms := map_option (\<lambda>w. w * 0.44704) (wind_speed r)\<rparr>)
       (filter (\<lambda>r. origin r \<in> {''EWR'', ''JFK'', ''LGA''} \<and> wind_speed r \<noteq> None) raw)
   \<and> (\<forall>r\<in>set (frame_rows (load_and_clean_data raw)).
         origin r \<in> {''EWR'', ''JFK'', ''LGA''}
         \<and> (\<exists>w. wind_speed r = Some w \<and> wind_speed_ms r = Some (w * 0.44704)))"
  by (auto simp: load_and_clean_data_def read_csv_def AIRPORTS_def MPH_TO_MS_def conj_commute)

theorem load_and_clean_data_spec_witness:
  "frame_rows (load_and_clean_data
     [\<lparr>origin = ''LGA'', year = 2013, month = 1, day = 1, wind_speed = Some 10,
        wind_speed_ms = None, date = None\<rparr>,
      \<lparr>origin = ''ORD'', year = 2013, month = 1, day = 1, wind_speed = Some 12,
        wind_speed_ms = None, date = None\<rparr>,
      \<lparr>origin = ''EWR'', year = 2013, month = 1, day = 2, wind_speed = None,
        wind_speed_ms = None, date = None\<rparr>])
   = [\<lparr>origin = ''LGA'', year = 2013, month = 1, day = 1, wind_speed = Some 10,
        wind_speed_ms = Some 4.4704, date = None\<rparr>]"
  using load_and_clean_data_spec
    [of "[\<lparr>origin = ''LGA'', year = 2013, month = 1, day = 1, wind_speed = Some 10,
        wind_speed_ms = None, date = None\<rparr>,
      \<lparr>origin = ''ORD'', year = 2013, month = 1, day = 1, wind_speed = Some 12,
        wind_speed_ms = None, date = None\<rparr>,
      \<lparr>origin = ''EWR'', year = 2013, month = 1, day = 2, wind_speed = None,
        wind_speed_ms = None, date = None\<rparr>]"]
  by simp

text \<open>
  Claim C8. Filtering the airports first and dropping the missing wind speeds second
  gives the same cleaned table as the two filters in the opposite order.
\<close>

theorem filters_commute:
  "load_and_clean_data raw = clean_dropna_first raw"
  by (simp add: load_and_clean_data_def clean_dropna_first_def conj_commute)

section \<open>Grouping and means\<close>

lemma map_filter_id_Some: "List.map_filter id (map Some vs) = vs"
  by (induction vs) (simp_all add:)

lemma mean_skipna_Some:
  "vs \<noteq> [] \<Longrightarrow> mean_skipna (map Some vs) = Some (sum_list vs / real (length vs))"
  by (simp add: mean_skipna_def map_filter_id_Some)

lemma all_present:
  assumes "\<forall>x\<in>set xs. \<exists>w. col x = Some w"
  shows "\<exists>vs. map col xs = map Some vs"
proof -
  from assms have "map col xs = map Some (map (\<lambda>x. the (col x)) xs)" by auto
  then show ?thesis ..
qed

lemma group_mean_present:
  assumes "\<forall>x\<in>set xs. \<exists>w. col x = Some w" and "xs \<noteq> []"
  shows "\<exists>vs. vs \<noteq> [] \<and> map col xs = map Some vs
           \<and> mean_skipna (map col xs) = Some (sum_list vs / real (length vs))"
proof -
  from all_present [OF assms(1)] obtain vs where vs: "map col xs = map Some vs" ..
  with assms(2) have "vs \<noteq> []" by auto
  with vs show ?thesis by (auto simp: mean_skipna_Some)
qed

lemma groupby_mean_keys:
  "map fst (groupby_mean key col df) = sort (remdups (List.map_filter key df))"
  by (simp add: groupby_mean_def comp_def)

lemma set_map_filter_key:
  "set (List.map_filter key df) = {k. \<exists>r\<in>set df. key r = Some k}"
  by (induction df) (auto simp: split: option.splits)

lemma groupby_mean_keys_set:
  "set (map fst (groupby_mean key col df)) = {k. \<exists>r\<in>set df. key r = Some k}"
  by (simp only: groupby_mean_keys set_sort set_remdups set_map_filter_key)

lemma groupby_mean_keys_sorted:
  "sorted_wrt (<) (map fst (groupby_mean key col df))"
  by (simp only: groupby_mean_keys strict_sorted_iff) simp

lemma groupby_mean_keys_distinct:
  "distinct (map fst (groupby_mean key col df))"
  using groupby_mean_keys_sorted [of key col df] by (simp only: strict_sorted_iff)

lemma groupby_mean_value:
  assumes "(k, v) \<in> set (groupby_mean key col df)"
  shows "v = mean_skipna (map col (filter (\<lambda>r. key r = Some k) df))"
    and "\<exists>r\<in>set df. key r = Some k"
  using assms by (auto simp: groupby_mean_def set_map_filter_key)

lemma groupby_mean_map:
  "groupby_mean key col (map f df) = groupby_mean (\<lambda>r. key (f r)) (\<lambda>r. col (f r)) df"
  by (simp add: groupby_mean_def List.map_filter_def filter_map comp_def)

lemma groupby_mean_lookup:
  "map_of (groupby_mean key col df) k =
     (if \<exists>r\<in>set df. key r = Some k
      then Some (mean_skipna (map col (filter (\<lambda>r. key r = Some k) df))) else None)"
  by (simp add: groupby_mean_def map_of_map_restrict restrict_map_def set_map_filter_key)

lemma groupby_mean_length:
  "length (groupby_mean key col df) = card {k. \<exists>r\<in>set df. key r = Some k}"
proof -
  have "length (groupby_mean key col df) = length (map fst (groupby_mean key col df))" by simp
  also have "\<dots> = card (set (map fst (groupby_mean key col df)))"
    by (rule distinct_card [symmetric]) (rule groupby_mean_keys_distinct)
  finally show ?thesis by (simp only: groupby_mean_keys_set)
qed

lemma groupby_mean_cong:
  assumes "\<forall>r\<in>set df. key r = key' r"
  shows "groupby_mean key col df = groupby_mean key' col df"
proof -
  from assms have "List.map_filter key df = List.map_filter key' df"
    by (induction df) (auto split: option.splits)
  moreover from assms
  have "filter (\<lambda>r. key r = Some k) df = filter (\<lambda>r. key' r = Some k) df" for k
    by (auto intro: filter_cong)
  ultimately show ?thesis by (simp add: groupby_mean_def)
qed

section \<open>Daily means\<close>

lemma daily_means_unfold:
  assumes "to_datetime other (frame_rows df) = Inr ts"
  shows "calculate_daily_means other df =
     Inr (map (\<lambda>((t, a), v). \<lparr>Date = t, Airport = a, Wind_Speed_ms = v\<rparr>)
            (groupby_mean (\<lambda>r. map_option (\<lambda>t. (t, origin r)) (stamp other r)) wind_speed_ms
               (frame_rows df)),
          df\<lparr>frame_rows := map (\<lambda>r. r\<lparr>date := stamp other r\<rparr>) (frame_rows df)\<rparr>)"
  by (simp add: calculate_daily_means_def assms assign_date_stamp [OF assms] groupby_mean_map)

lemma daily_record_keys:
  "map (\<lambda>d. (Date d, Airport d)) (map (\<lambda>((t, a), v). \<lparr>Date = t, Airport = a, Wind_Speed_ms = v\<rparr>) long)
     = map fst long"
  by (induction long) auto

lemma key_image:
  "{k. \<exists>r\<in>set rs. Some (f r) = Some k} = f ` set rs"
  by auto

text \<open>
  Claim C2. For a cleaned table whose rows all have a date of the calendar (with a year
  inside the timestamp range), the daily aggregation returns; its rows correspond one to
  one to the distinct pairs of date (year, month, day) and airport that occur in the
  table, and the wind speed of each row is the arithmetic mean of \<open>wind_speed_ms\<close> over
  exactly the rows of the table with that date and airport, all of which have a value.
\<close>

theorem daily_means_spec:
  assumes "\<forall>r\<in>set (frame_rows (load_and_clean_data raw)). supported_date r"
  shows "\<exists>daily df'.
     calculate_daily_means other (load_and_clean_data raw) = Inr (daily, df')
     \<and> distinct (map (\<lambda>d. (Date d, Airport d)) daily)
     \<and> set (map (\<lambda>d. (Date d, Airport d)) daily)
         = (\<lambda>r. ((year r, month r, day r), origin r)) ` set (frame_rows (load_and_clean_data raw))
     \<and> length daily
         = card ((\<lambda>r. ((year r, month r, day r), origin r))
                   ` set (frame_rows (load_and_clean_data raw)))
     \<and> (\<forall>d\<in>set daily. \<exists>vs. vs \<noteq> []
           \<and> map wind_speed_ms
                (filter (\<lambda>r. (year r, month r, day r) = Date d \<and> origin r = Airport d)
                   (frame_rows (load_and_clean_data raw))) = map Some vs
           \<and> Wind_Speed_ms d = Some (sum_list vs / real (length vs)))"
proof -
  let ?rs = "frame_rows (load_and_clean_data raw)"
  let ?k = "\<lambda>r. ((year r, month r, day r), origin r)"
  let ?long = "groupby_mean (\<lambda>r. Some (?k r)) wind_speed_ms ?rs"
  let ?daily = "map (\<lambda>((t, a), v). \<lparr>Date = t, Airport = a, Wind_Speed_ms = v\<rparr>) ?long"
  from assms have "\<forall>r\<in>set ?rs. assemble other r \<noteq> Inl ValueError"
    by (simp add: assemble_supported)
  from to_datetime_total [OF this] obtain ts where ts: "to_datetime other ?rs = Inr ts" ..
  from assms have "\<forall>r\<in>set ?rs.
      map_option (\<lambda>t. (t, origin r)) (stamp other r) = Some (?k r)"
    by (simp add: stamp_supported)
  then have long: "groupby_mean (\<lambda>r. map_option (\<lambda>t. (t, origin r)) (stamp other r))
      wind_speed_ms ?rs = ?long"
    by (rule groupby_mean_cong)
  have run: "\<exists>df'. calculate_daily_means other (load_and_clean_data raw) = Inr (?daily, df')"
    by (simp add: daily_means_unfold [OF ts] long)
  have keys: "map (\<lambda>d. (Date d, Airport d)) ?daily = map fst ?long"
    by (rule daily_record_keys)
  have dist: "distinct (map (\<lambda>d. (Date d, Airport d)) ?daily)"
    by (simp only: keys groupby_mean_keys_distinct)
  have set_eq: "set (map (\<lambda>d. (Date d, Airport d)) ?daily) = ?k ` set ?rs"
    by (simp only: keys groupby_mean_keys_set key_image)
  have len: "length ?daily = card (?k ` set ?rs)"
    by (simp only: length_map groupby_mean_length key_image)
  have vals: "\<exists>vs. vs \<noteq> []
           \<and> map wind_speed_ms
                (filter (\<lambda>r. (year r, month r, day r) = Date d \<and> origin r = Airport d) ?rs)
               = map Some vs
           \<and> Wind_Speed_ms d = Some (sum_list vs / real (length vs))"
    if "d \<in> set ?daily" for d
  proof -
    from that obtain t a v where kv: "((t, a), v) \<in> set ?long"
      and d: "d = \<lparr>Date = t, Airport = a, Wind_Speed_ms = v\<rparr>" by auto
    let ?grp = "filter (\<lambda>r. (year r, month r, day r) = t \<and> origin r = a) ?rs"
    have grp: "filter (\<lambda>r. Some (?k r) = Some (t, a)) ?rs = ?grp"
      by simp
    from groupby_mean_value(1) [OF kv]
    have v: "v = mean_skipna (map wind_speed_ms ?grp)" by (simp only: grp)
    from groupby_mean_value(2) [OF kv] obtain r
      where r: "r \<in> set ?rs" and "Some (?k r) = Some (t, a)" ..
    then have "r \<in> set ?grp" by simp
    then have ne: "?grp \<noteq> []" by (metis empty_iff empty_set)
    have "\<forall>r\<in>set ?grp. \<exists>w. wind_speed_ms r = Some w"
      by (auto dest: cleaned_speed)
    from group_mean_present [OF this ne] v d show ?thesis by auto
  qed
  from run dist set_eq len vals show ?thesis by blast
qed

theorem daily_means_spec_witness:
  "calculate_daily_means (\<lambda>y m d. None) (load_and_clean_data
     [\<lparr>origin = ''LGA'', year = 2013, month = 1, day = 1, wind_speed = Some 10,
        wind_speed_ms = None, date = None\<rparr>,
      \<lparr>origin = ''LGA'', year = 2013, month = 1, day = 1, wind_speed = Some 20,
        wind_speed_ms = None, date = None\<rparr>,
      \<lparr>origin = ''LGA'', year = 2013, month = 1, day = 2, wind_speed = Some 30,
        wind_speed_ms = None, date = None\<rparr>,
      \<lparr>origin = ''JFK'', year = 2013, month = 1, day = 1, wind_speed = Some 40,
        wind_speed_ms = None, date = None\<rparr>])
   = Inr ([\<lparr>Date = (2013, 1, 1), Airport = ''JFK'', Wind_Speed_ms = Some 17.8816\<rparr>,
           \<lparr>Date = (2013, 1, 1), Airport = ''LGA'', Wind_Speed_ms = Some 6.7056\<rparr>,
           \<lparr>Date = (2013, 1, 2), Airport = ''LGA'', Wind_Speed_ms = Some 13.4112\<rparr>],
          \<lparr>frame_rows =
             [\<lparr>origin = ''LGA'', year = 2013, month = 1, day = 1, wind_speed = Some 10,
        wind_speed_ms = Some 4.4704, date = Some (2013, 1, 1)\<rparr>,
              \<lparr>origin = ''LGA'', year = 2013, month = 1, day = 1, wind_speed = Some 20,
        wind_speed_ms = Some 8.9408, date = Some (2013, 1, 1)\<rparr>,
              \<lparr>origin = ''LGA'', year = 2013, month = 1, day = 2, wind_speed = Some 30,
        wind_speed_ms = Some 13.4112, date = Some (2013, 1, 2)\<rparr>,
              \<lparr>origin = ''JFK'', year = 2013, month = 1, day = 1, wind_speed = Some 40,
        wind_speed_ms = Some 17.8816, date = Some (2013, 1, 1)\<rparr>],
           speed_dtype = Float64\<rparr>)"
  using daily_means_spec
    [of "[\<lparr>origin = ''LGA'', year = 2013, month = 1, day = 1, wind_speed = Some 10,
        wind_speed_ms = None, date = None\<rparr>,
      \<lparr>origin = ''LGA'', year = 2013, month = 1, day = 1, wind_speed = Some 20,
        wind_speed_ms = None, date = None\<rparr>,
      \<lparr>origin = ''LGA'', year = 2013, month = 1, day = 2, wind_speed = Some 30,
        wind_speed_ms = None, date = None\<rparr>,
      \<lparr>origin = ''JFK'', year = 2013, month = 1, day = 1, wind_speed = Some 40,
        wind_speed_ms = None, date = None\<rparr>]" "(\<lambda>y m d. None)"]
  by (simp add: load_and_clean_data_def read_csv_def AIRPORTS_def MPH_TO_MS_def
      calculate_daily_means_def calculate_monthly_means_def airport_daily_def
      find_top_windiest_days_def supported_date_def assemble_def
      valid_date_def days_in_month_def is_leap_def assign_date_def groupby_mean_def
      mean_skipna_def pivot_def nlargest_def desc_key_def)

text \<open>
  Claim C5. The claim says that no aggregator changes the cleaned table.
  \<open>calculate_daily_means\<close> assigns the column \<open>date\<close> on the frame it is given, so the
  caller's table has that column filled afterwards; \<open>find_top_windiest_days\<close> makes the
  same assignment on a copy. The evaluation below is the daily aggregation on a table of
  one cleaned row.
\<close>

theorem daily_means_adds_date_column:
  "calculate_daily_means other
     \<lparr>frame_rows =
        [\<lparr>origin = ''LGA'', year = 2013, month = 1, day = 1, wind_speed = Some 10,
        wind_speed_ms = Some 4.4704, date = None\<rparr>],
      speed_dtype = Float64\<rparr>
   = Inr ([\<lparr>Date = (2013, 1, 1), Airport = ''LGA'', Wind_Speed_ms = Some 4.4704\<rparr>],
          \<lparr>frame_rows =
             [\<lparr>origin = ''LGA'', year = 2013, month = 1, day = 1, wind_speed = Some 10,
        wind_speed_ms = Some 4.4704, date = Some (2013, 1, 1)\<rparr>],
           speed_dtype = Float64\<rparr>)"
  by (simp add: calculate_daily_means_def assemble_def valid_date_def
      days_in_month_def assign_date_def groupby_mean_def mean_skipna_def)



section \<open>Monthly means\<close>

lemma pivot_unfold:
  assumes "distinct (map fst long)"
  shows "pivot long =
     Inr \<lparr>columns = sort (remdups (map (\<lambda>k. snd (fst k)) long)),
          rows = map (\<lambda>m. (m, map (\<lambda>a. case map_of long (m, a) of Some v \<Rightarrow> v | None \<Rightarrow> None)
                                 (sort (remdups (map (\<lambda>k. snd (fst k)) long)))))
                   (sort (remdups (map (\<lambda>k. fst (fst k)) long)))\<rparr>"
  using assms by (simp add: pivot_def Let_def case_prod_unfold)

lemma cell_at_pivot:
  assumes "pivot long = Inr pv"
  shows "cell_at pv m a = (case map_of long (m, a) of Some v \<Rightarrow> v | None \<Rightarrow> None)"
proof -
  from assms have d: "distinct (map fst long)"
    by (auto simp: pivot_def split: if_splits)
  let ?cols = "sort (remdups (map (\<lambda>k. snd (fst k)) long))"
  let ?idx = "sort (remdups (map (\<lambda>k. fst (fst k)) long))"
  let ?cell = "\<lambda>m a. case map_of long (m, a) of Some v \<Rightarrow> v | None \<Rightarrow> None"
  from assms pivot_unfold [OF d]
  have pv: "columns pv = ?cols" "rows pv = map (\<lambda>m. (m, map (?cell m) ?cols)) ?idx"
    by auto
  show ?thesis
  proof (cases "map_of long (m, a)")
    case None
    then show ?thesis
      by (simp add: cell_at_def pv map_of_map_restrict restrict_map_def map_of_zip_map
          split: option.splits)
  next
    case (Some v)
    then have "((m, a), v) \<in> set long" by (rule map_of_SomeD)
    then have "m \<in> set ?idx" "a \<in> set ?cols" by force+
    with Some show ?thesis
      by (simp add: cell_at_def pv map_of_map_restrict restrict_map_def map_of_zip_map)
  qed
qed

text \<open>
  Claim C4. For a cleaned table the monthly aggregation returns: the pivoted table has one
  row per month that occurs in the table, in ascending order of the month, and one column
  per airport that occurs in the table, every row with one cell per column. The cell of a
  month and an airport with at least one row is the arithmetic mean of \<open>wind_speed_ms\<close>
  over exactly those rows; the cell of a month and an airport without a row is missing
  (so it is not zero). The cleaned table itself is returned as it was.
\<close>

theorem monthly_means_spec:
  "\<exists>pv.
     calculate_monthly_means (load_and_clean_data raw) = Inr (pv, load_and_clean_data raw)
     \<and> sorted_wrt (<) (map fst (rows pv))
     \<and> set (map fst (rows pv)) = month ` set (frame_rows (load_and_clean_data raw))
     \<and> sorted_wrt (<) (columns pv)
     \<and> set (columns pv) = origin ` set (frame_rows (load_and_clean_data raw))
     \<and> (\<forall>row\<in>set (rows pv). length (snd row) = length (columns pv))
     \<and> (\<forall>m a. (\<exists>r\<in>set (frame_rows (load_and_clean_data raw)). month r = m \<and> origin r = a) \<longrightarrow>
           (\<exists>vs. vs \<noteq> []
              \<and> map wind_speed_ms
                   (filter (\<lambda>r. month r = m \<and> origin r = a)
                      (frame_rows (load_and_clean_data raw)))
                 = map Some vs
              \<and> cell_at pv m a = Some (sum_list vs / real (length vs))))
     \<and> (\<forall>m a. \<not> (\<exists>r\<in>set (frame_rows (load_and_clean_data raw)). month r = m \<and> origin r = a) \<longrightarrow>
           cell_at pv m a = None)"
proof -
  let ?df = "load_and_clean_data raw"
  let ?rs = "frame_rows ?df"
  let ?k = "\<lambda>r. (month r, origin r)"
  let ?long = "groupby_mean (\<lambda>r. Some (?k r)) wind_speed_ms ?rs"
  let ?cols = "sort (remdups (map (\<lambda>k. snd (fst k)) ?long))"
  let ?idx = "sort (remdups (map (\<lambda>k. fst (fst k)) ?long))"
  let ?cell = "\<lambda>m a. case map_of ?long (m, a) of Some v \<Rightarrow> v | None \<Rightarrow> None"
  let ?pv = "\<lparr>columns = ?cols, rows = map (\<lambda>m. (m, map (?cell m) ?cols)) ?idx\<rparr>"
  have d: "distinct (map fst ?long)" by (rule groupby_mean_keys_distinct)
  have pv: "pivot ?long = Inr ?pv" by (rule pivot_unfold [OF d])
  then have run: "calculate_monthly_means ?df = Inr (?pv, ?df)"
    by (simp add: calculate_monthly_means_def)
  have keys: "set (map fst ?long) = ?k ` set ?rs"
    by (simp only: groupby_mean_keys_set key_image)
  have "set ?idx = fst ` set (map fst ?long)" by (simp add: image_image)
  then have idx: "set ?idx = month ` set ?rs" by (simp only: keys image_image fst_conv)
  have "set ?cols = snd ` set (map fst ?long)" by (simp add: image_image)
  then have cols: "set ?cols = origin ` set ?rs" by (simp only: keys image_image snd_conv)
  have r1: "sorted_wrt (<) (map fst (rows ?pv))"
    by (simp add: comp_def strict_sorted_iff)
  have r2: "set (map fst (rows ?pv)) = month ` set ?rs"
    using idx by (simp add: comp_def)
  have c1: "sorted_wrt (<) (columns ?pv)"
    by (simp add: strict_sorted_iff)
  have c2: "set (columns ?pv) = origin ` set ?rs"
    using cols by simp
  have w: "\<forall>row\<in>set (rows ?pv). length (snd row) = length (columns ?pv)"
    by auto
  have present: "\<exists>vs. vs \<noteq> []
        \<and> map wind_speed_ms (filter (\<lambda>r. month r = m \<and> origin r = a) ?rs) = map Some vs
        \<and> cell_at ?pv m a = Some (sum_list vs / real (length vs))"
    if "\<exists>r\<in>set ?rs. month r = m \<and> origin r = a" for m a
  proof -
    let ?grp = "filter (\<lambda>r. month r = m \<and> origin r = a) ?rs"
    from that have ne: "?grp \<noteq> []" by (auto simp: filter_empty_conv)
    have "\<forall>r\<in>set ?grp. \<exists>w. wind_speed_ms r = Some w"
      by (auto dest: cleaned_speed)
    from group_mean_present [OF this ne] obtain vs where vs: "vs \<noteq> []"
      "map wind_speed_ms ?grp = map Some vs"
      "mean_skipna (map wind_speed_ms ?grp) = Some (sum_list vs / real (length vs))" by blast
    from that have "map_of ?long (m, a) = Some (mean_skipna (map wind_speed_ms ?grp))"
      by (simp add: groupby_mean_lookup)
    with vs(3) have "cell_at ?pv m a = Some (sum_list vs / real (length vs))"
      by (simp only: cell_at_pivot [OF pv] option.case)
    with vs(1,2) show ?thesis by blast
  qed
  have absent: "cell_at ?pv m a = None"
    if "\<not> (\<exists>r\<in>set ?rs. month r = m \<and> origin r = a)" for m a
  proof -
    from that have "map_of ?long (m, a) = None"
      by (simp add: groupby_mean_lookup)
    then show ?thesis by (simp only: cell_at_pivot [OF pv] option.case)
  qed
  from run r1 r2 c1 c2 w present absent show ?thesis by blast
qed

theorem monthly_means_spec_witness:
  "calculate_monthly_means (load_and_clean_data
     [\<lparr>origin = ''LGA'', year = 2013, month = 1, day = 1, wind_speed = Some 10,
        wind_speed_ms = None, date = None\<rparr>,
      \<lparr>origin = ''JFK'', year = 2013, month = 2, day = 1, wind_speed = Some 20,
        wind_speed_ms = None, date = None\<rparr>])
   = Inr (\<lparr>columns = [''JFK'', ''LGA''],
           rows = [(1, [None, Some 4.4704]), (2, [Some 8.9408, None])]\<rparr>,
          \<lparr>frame_rows =
             [\<lparr>origin = ''LGA'', year = 2013, month = 1, day = 1, wind_speed = Some 10,
        wind_speed_ms = Some 4.4704, date = None\<rparr>,
              \<lparr>origin = ''JFK'', year = 2013, month = 2, day = 1, wind_speed = Some 20,
        wind_speed_ms = Some 8.9408, date = None\<rparr>],
           speed_dtype = Float64\<rparr>)"
  using monthly_means_spec
    [of "[\<lparr>origin = ''LGA'', year = 2013, month = 1, day = 1, wind_speed = Some 10,
        wind_speed_ms = None, date = None\<rparr>,
      \<lparr>origin = ''JFK'', year = 2013, month = 2, day = 1, wind_speed = Some 20,
        wind_speed_ms = None, date = None\<rparr>]"]
  by (simp add: load_and_clean_data_def read_csv_def AIRPORTS_def MPH_TO_MS_def
      calculate_daily_means_def calculate_monthly_means_def airport_daily_def
      find_top_windiest_days_def supported_date_def assemble_def
      valid_date_def days_in_month_def is_leap_def assign_date_def groupby_mean_def
      mean_skipna_def pivot_def nlargest_def desc_key_def)

section \<open>The windiest days\<close>

lemma airport_daily_unfold:
  assumes "to_datetime other (filter (\<lambda>r. origin r = airport) (frame_rows df)) = Inr ts"
  shows "airport_daily other df airport
           = Inr (groupby_mean (stamp other) wind_speed_ms
                    (filter (\<lambda>r. origin r = airport) (frame_rows df)))"
  by (simp add: airport_daily_def assms assign_date_stamp [OF assms] groupby_mean_map)

lemma airport_daily_total:
  assumes "\<forall>r\<in>set (frame_rows df). origin r = airport \<longrightarrow> assemble other r \<noteq> Inl ValueError"
  shows "airport_daily other df airport
           = Inr (groupby_mean (stamp other) wind_speed_ms
                    (filter (\<lambda>r. origin r = airport) (frame_rows df)))"
proof -
  from assms
  have "\<forall>r\<in>set (filter (\<lambda>r. origin r = airport) (frame_rows df)).
          assemble other r \<noteq> Inl ValueError"
    by simp
  from to_datetime_total [OF this] obtain ts
    where "to_datetime other (filter (\<lambda>r. origin r = airport) (frame_rows df)) = Inr ts" ..
  then show ?thesis by (rule airport_daily_unfold)
qed

lemma find_top_unfold:
  assumes "airport_daily other df airport = Inr daily" and "speed_dtype df = Float64"
  shows "find_top_windiest_days other df airport n
           = Inr (map (\<lambda>(t, v). \<lparr>Date = t, Airport = airport, Wind_Speed_ms = v\<rparr>)
                    (take (nat n) (sort_key (\<lambda>r. desc_key (snd r)) daily)), df)"
  by (simp add: find_top_windiest_days_def assms nlargest_def)

lemma top_record_fields:
  "map Date (map (\<lambda>(t, v). \<lparr>Date = t, Airport = airport, Wind_Speed_ms = v\<rparr>) xs) = map fst xs"
  "map Wind_Speed_ms (map (\<lambda>(t, v). \<lparr>Date = t, Airport = airport, Wind_Speed_ms = v\<rparr>) xs) = map snd xs"
  "\<forall>d\<in>set (map (\<lambda>(t, v). \<lparr>Date = t, Airport = airport, Wind_Speed_ms = v\<rparr>) xs). Airport d = airport"
  by (induction xs) auto



text \<open>
  Claim C7 as stated fails on the cleaned table of a file that has the header line only:
  the table has no row of any airport, its wind speed column has dtype \<open>object\<close>, and
  \<open>nlargest\<close> raises \<open>TypeError\<close>.
\<close>

theorem header_only_no_rows_raises:
  "frame_rows (load_and_clean_data []) = []
   \<and> find_top_windiest_days (\<lambda>y m d. None) (load_and_clean_data []) ''LGA'' 20
       = Inl TypeError"
  by (simp add: load_and_clean_data_def read_csv_def find_top_windiest_days_def
      airport_daily_def assign_date_def groupby_mean_def nlargest_def)

text \<open>
  Claim C7, amended. For the cleaned table of a file with at least one data line and an
  airport without any row in that table, \<open>find_top_windiest_days\<close> returns the empty
  result and raises nothing; the table is as before.
\<close>

theorem no_rows_for_airport_empty:
  assumes "raw \<noteq> []"
    and "\<forall>r\<in>set (frame_rows (load_and_clean_data raw)). origin r \<noteq> airport"
  shows "find_top_windiest_days other (load_and_clean_data raw) airport top_n
           = Inr ([], load_and_clean_data raw)"
proof -
  from assms(2)
  have "filter (\<lambda>r. origin r = airport) (frame_rows (load_and_clean_data raw)) = []"
    by (simp add: filter_empty_conv)
  then have "airport_daily other (load_and_clean_data raw) airport = Inr []"
    by (simp add: airport_daily_def assign_date_def groupby_mean_def)
  moreover from assms(1) have "speed_dtype (load_and_clean_data raw) = Float64"
    by (simp add: load_and_clean_data_dtype)
  ultimately show ?thesis by (simp add: find_top_unfold)
qed

theorem no_rows_for_airport_empty_witness:
  "find_top_windiest_days (\<lambda>y m d. None) (load_and_clean_data
     [\<lparr>origin = ''JFK'', year = 2013, month = 4, day = 30, wind_speed = Some 10,
        wind_speed_ms = None, date = None\<rparr>,
      \<lparr>origin = ''LGA'', year = 2013, month = 4, day = 30, wind_speed = None,
        wind_speed_ms = None, date = None\<rparr>]) ''LGA'' 20
   = Inr ([],
          \<lparr>frame_rows =
             [\<lparr>origin = ''JFK'', year = 2013, month = 4, day = 30, wind_speed = Some 10,
        wind_speed_ms = Some 4.4704, date = None\<rparr>],
           speed_dtype = Float64\<rparr>)"
  using no_rows_for_airport_empty
    [of "[\<lparr>origin = ''JFK'', year = 2013, month = 4, day = 30, wind_speed = Some 10,
        wind_speed_ms = None, date = None\<rparr>,
      \<lparr>origin = ''LGA'', year = 2013, month = 4, day = 30, wind_speed = None,
        wind_speed_ms = None, date = None\<rparr>]" "''LGA''" "\<lambda>y m d. None" 20]
  by (simp add: load_and_clean_data_def read_csv_def AIRPORTS_def MPH_TO_MS_def
      calculate_daily_means_def calculate_monthly_means_def airport_daily_def
      find_top_windiest_days_def supported_date_def assemble_def
      valid_date_def days_in_month_def is_leap_def assign_date_def groupby_mean_def
      mean_skipna_def pivot_def nlargest_def desc_key_def)





text \<open>
  A stable sort by one key of a list that is already in ascending order of a second key
  is in ascending lexicographic order of the two keys.
\<close>

lemma insort_key_secondary:
  fixes f :: "'a \<Rightarrow> 'b::linorder" and g :: "'a \<Rightarrow> 'c::linorder"
  assumes "sorted (map (\<lambda>x. (f x, g x)) ys)" and "\<forall>y\<in>set ys. g x \<le> g y"
  shows "sorted (map (\<lambda>x. (f x, g x)) (insort_key f x ys))"
  using assms
proof (induction ys)
  case Nil
  then show ?case by simp
next
  case (Cons y ys)
  show ?case
  proof (cases "f x \<le> f y")
    case True
    from Cons.prems(2) have gy: "g x \<le> g y" by simp
    with True have xy: "(f x, g x) \<le> (f y, g y)" by auto
    from Cons.prems(1) have "\<forall>z\<in>set ys. (f y, g y) \<le> (f z, g z)" by simp
    with xy have "\<forall>z\<in>set ys. (f x, g x) \<le> (f z, g z)" by (meson order_trans)
    with xy Cons.prems(1) True show ?thesis by simp
  next
    case False
    then have yx: "(f y, g y) \<le> (f x, g x)" by auto
    from Cons.prems have "sorted (map (\<lambda>x. (f x, g x)) (insort_key f x ys))"
      by (intro Cons.IH) simp_all
    with yx Cons.prems(1) False show ?thesis by (auto simp: set_insort_key)
  qed
qed

lemma sort_key_secondary:
  fixes f :: "'a \<Rightarrow> 'b::linorder" and g :: "'a \<Rightarrow> 'c::linorder"
  assumes "sorted (map g xs)"
  shows "sorted (map (\<lambda>x. (f x, g x)) (sort_key f xs))"
  using assms
proof (induction xs)
  case Nil
  then show ?case by simp
next
  case (Cons x xs)
  then have "sorted (map (\<lambda>x. (f x, g x)) (sort_key f xs))" by simp
  moreover from Cons.prems have "\<forall>y\<in>set (sort_key f xs). g x \<le> g y" by simp
  ultimately show ?case by (simp add: insort_key_secondary)
qed

lemma sort_key_secondary_strict:
  fixes f :: "'a \<Rightarrow> 'b::linorder" and g :: "'a \<Rightarrow> 'c::linorder"
  assumes "sorted_wrt (<) (map g xs)"
  shows "sorted_wrt (<) (map (\<lambda>x. (f x, g x)) (sort_key f xs))"
proof -
  from assms have s: "sorted (map g xs)" and d: "distinct (map g xs)"
    by (simp_all only: strict_sorted_iff)
  from d have "distinct (map g (sort_key f xs))" by (simp add: distinct_map)
  then have "distinct (map (\<lambda>x. (f x, g x)) (sort_key f xs))"
    by (auto simp: distinct_map inj_on_def)
  with sort_key_secondary [OF s, of f] show ?thesis by (simp only: strict_sorted_iff)
qed

lemma take_ties_ordered:
  fixes f :: "'a \<Rightarrow> 'b::linorder" and g :: "'a \<Rightarrow> 'c::linorder"
  assumes "sorted_wrt (<) (map (\<lambda>x. (f x, g x)) S)"
    and "i < j" and "j < length (take k S)" and "f (take k S ! i) = f (take k S ! j)"
  shows "g (take k S ! i) < g (take k S ! j)"
proof -
  from assms(3) have j: "j < length S" "j < k" by simp_all
  with assms(2) have i: "i < length S" "i < k" by simp_all
  have "map (\<lambda>x. (f x, g x)) S ! i < map (\<lambda>x. (f x, g x)) S ! j"
    by (rule sorted_wrt_nth_less [OF assms(1) assms(2)]) (simp add: j)
  with i j have "(f (S ! i), g (S ! i)) < (f (S ! j), g (S ! j))" by simp
  moreover from assms(4) i j have "f (S ! i) = f (S ! j)" by simp
  ultimately have "g (S ! i) < g (S ! j)" by simp
  with i j show ?thesis by simp
qed

lemma take_ties_kept:
  fixes f :: "'a \<Rightarrow> 'b::linorder" and g :: "'a \<Rightarrow> 'c::linorder"
  assumes "sorted_wrt (<) (map (\<lambda>x. (f x, g x)) S)"
    and "q \<in> set (take k S)" and "p \<in> set S" and "p \<notin> set (take k S)" and "f p = f q"
  shows "g q < g p"
proof -
  have "set S = set (take k S) \<union> set (drop k S)"
    by (metis append_take_drop_id set_append)
  with assms(3,4) have p: "p \<in> set (drop k S)" by simp
  have "sorted_wrt (<) (map (\<lambda>x. (f x, g x)) (take k S @ drop k S))"
    using assms(1) by simp
  then have "\<forall>x\<in>set (take k S). \<forall>y\<in>set (drop k S). (f x, g x) < (f y, g y)"
    by (simp only: map_append sorted_wrt_append) auto
  with assms(2) p have "(f q, g q) < (f p, g p)" by blast
  with assms(5) show ?thesis by simp
qed

text \<open>
  Claim C10. On a table with a numeric wind speed column, the per-date means of the
  airport come in ascending order of the date. Among rows of the ranking with equal mean
  the earlier date comes first, and a date that was left out has a later date than every
  kept row with the same mean.
\<close>

theorem top_ties_earliest_first:
  assumes "speed_dtype df = Float64"
    and "\<forall>r\<in>set (frame_rows df). origin r = airport \<longrightarrow> assemble other r \<noteq> Inl ValueError"
  shows "\<exists>daily top_days.
     airport_daily other df airport = Inr daily
     \<and> find_top_windiest_days other df airport n = Inr (top_days, df)
     \<and> sorted_wrt (<) (map fst daily)
     \<and> (\<forall>i j. i < j \<and> j < length top_days \<and> Wind_Speed_ms (top_days ! i) = Wind_Speed_ms (top_days ! j)
            \<longrightarrow> Date (top_days ! i) < Date (top_days ! j))
     \<and> (\<forall>a\<in>set top_days. \<forall>p\<in>set daily.
            snd p = Wind_Speed_ms a \<and> fst p \<notin> Date ` set top_days \<longrightarrow> Date a < fst p)"
proof -
  let ?daily = "groupby_mean (stamp other) wind_speed_ms
      (filter (\<lambda>r. origin r = airport) (frame_rows df))"
  let ?f = "\<lambda>r::timestamp \<times> real option. desc_key (snd r)"
  let ?S = "sort_key ?f ?daily"
  let ?sel = "take (nat n) ?S"
  let ?top = "map (\<lambda>(t, v). \<lparr>Date = t, Airport = airport, Wind_Speed_ms = v\<rparr>) ?sel"
  have daily: "airport_daily other df airport = Inr ?daily"
    by (rule airport_daily_total [OF assms(2)])
  have run: "find_top_windiest_days other df airport n = Inr (?top, df)"
    by (rule find_top_unfold [OF daily assms(1)])
  have asc: "sorted_wrt (<) (map fst ?daily)"
    by (rule groupby_mean_keys_sorted)
  then have lex: "sorted_wrt (<) (map (\<lambda>x. (?f x, fst x)) ?S)"
    by (rule sort_key_secondary_strict)
  have nth: "Date (?top ! i) = fst (?sel ! i) \<and> Wind_Speed_ms (?top ! i) = snd (?sel ! i)"
    if "i < length ?sel" for i
    using that by (simp add: case_prod_beta del: length_take)
  have ties: "Date (?top ! i) < Date (?top ! j)"
    if "i < j" "j < length ?top" "Wind_Speed_ms (?top ! i) = Wind_Speed_ms (?top ! j)" for i j
  proof -
    from that(1,2) have j: "j < length ?sel" and i: "i < length ?sel" by simp_all
    from that(3) nth [OF i] nth [OF j] have "?f (?sel ! i) = ?f (?sel ! j)" by simp
    from take_ties_ordered [OF lex that(1) j this] nth [OF i] nth [OF j]
    show ?thesis by simp
  qed
  have kept: "Date a < fst p"
    if "a \<in> set ?top" "p \<in> set ?daily" "snd p = Wind_Speed_ms a" "fst p \<notin> Date ` set ?top"
    for a p
  proof -
    from that(1) obtain q where q: "q \<in> set ?sel"
      and a: "a = \<lparr>Date = fst q, Airport = airport, Wind_Speed_ms = snd q\<rparr>"
      by (auto simp: case_prod_beta)
    have "Date ` set ?top = fst ` set ?sel"
      by (simp only: set_map [symmetric] top_record_fields)
    with that(4) have "p \<notin> set ?sel" by auto
    moreover from that(2) have "p \<in> set ?S" by simp
    moreover from that(3) a have "?f p = ?f q" by simp
    ultimately have "fst q < fst p" using take_ties_kept [OF lex q] by blast
    with a show ?thesis by simp
  qed
  from daily run asc ties kept show ?thesis by blast
qed

theorem top_ties_earliest_first_witness:
  "find_top_windiest_days (\<lambda>y m d. None)
     \<lparr>frame_rows =
        [\<lparr>origin = ''LGA'', year = 2013, month = 1, day = 2, wind_speed = Some 10,
        wind_speed_ms = Some 4.4704, date = None\<rparr>,
         \<lparr>origin = ''LGA'', year = 2013, month = 1, day = 1, wind_speed = Some 10,
        wind_speed_ms = Some 4.4704, date = None\<rparr>,
         \<lparr>origin = ''LGA'', year = 2013, month = 1, day = 3, wind_speed = Some 20,
        wind_speed_ms = Some 8.9408, date = None\<rparr>],
      speed_dtype = Float64\<rparr> ''LGA'' 2
   = Inr ([\<lparr>Date = (2013, 1, 3), Airport = ''LGA'', Wind_Speed_ms = Some 8.9408\<rparr>,
           \<lparr>Date = (2013, 1, 1), Airport = ''LGA'', Wind_Speed_ms = Some 4.4704\<rparr>],
     \<lparr>frame_rows =
        [\<lparr>origin = ''LGA'', year = 2013, month = 1, day = 2, wind_speed = Some 10,
        wind_speed_ms = Some 4.4704, date = None\<rparr>,
         \<lparr>origin = ''LGA'', year = 2013, month = 1, day = 1, wind_speed = Some 10,
        wind_speed_ms = Some 4.4704, date = None\<rparr>,
         \<lparr>origin = ''LGA'', year = 2013, month = 1, day = 3, wind_speed = Some 20,
        wind_speed_ms = Some 8.9408, date = None\<rparr>],
      speed_dtype = Float64\<rparr>)"
  using top_ties_earliest_first
    [of "\<lparr>frame_rows =
        [\<lparr>origin = ''LGA'', year = 2013, month = 1, day = 2, wind_speed = Some 10,
        wind_speed_ms = Some 4.4704, date = None\<rparr>,
         \<lparr>origin = ''LGA'', year = 2013, month = 1, day = 1, wind_speed = Some 10,
        wind_speed_ms = Some 4.4704, date = None\<rparr>,
         \<lparr>origin = ''LGA'', year = 2013, month = 1, day = 3, wind_speed = Some 20,
        wind_speed_ms = Some 8.9408, date = None\<rparr>],
      speed_dtype = Float64\<rparr>" "''LGA''" "\<lambda>y m d. None" 2]
  by (simp add: load_and_clean_data_def read_csv_def AIRPORTS_def MPH_TO_MS_def
      calculate_daily_means_def calculate_monthly_means_def airport_daily_def
      find_top_windiest_days_def supported_date_def assemble_def
      valid_date_def days_in_month_def is_leap_def assign_date_def groupby_mean_def
      mean_skipna_def pivot_def nlargest_def desc_key_def)

end
